theory Spec2Isabelle
  imports Complex_Main "HOL-Library.Char_ord" "HOL-Library.List_Lexorder"
begin

text \<open>
  A shallow embedding of the exercise repository's content pipeline
  (\<open>scripts/md-to-json.js\<close>: sections, asset links, thumbnails, version tracking) and of
  its API server (routing, List, GetById, Batch, Search, categories, muscles), followed by
  the properties the specification claims of them. Libraries the code calls (the MD5
  digest, the YAML and markdown parsers, the schema validator, the clock, the file system)
  are parameters of the model; everything the repository's own code computes is defined.
\<close>

section \<open>JavaScript string and number primitives used by the scripts\<close>

text \<open>
  Strings are \<^typ>\<open>string\<close>; the model reads them as ASCII text, one \<^typ>\<open>char\<close> per
  code unit. \<open>undefined\<close> is \<open>None\<close> of an option type and \<open>NaN\<close> is \<open>None\<close> of
  \<^typ>\<open>int option\<close>.
\<close>

fun startsWith :: "string \<Rightarrow> string \<Rightarrow> bool" where
  "startsWith s [] = True"
| "startsWith [] (q # qs) = False"
| "startsWith (c # s) (q # qs) = (c = q \<and> startsWith s qs)"

definition endsWith :: "string \<Rightarrow> string \<Rightarrow> bool" where
  "endsWith s q = startsWith (rev s) (rev q)"

text \<open>\<open>String.prototype.includes\<close>: the argument occurs as a substring.\<close>

fun includes_str :: "string \<Rightarrow> string \<Rightarrow> bool" where
  "includes_str [] q = (q = [])"
| "includes_str (c # s) q = (startsWith (c # s) q \<or> includes_str s q)"

text \<open>\<open>String.prototype.toLowerCase\<close> on the ASCII range.\<close>

definition lower_char :: "char \<Rightarrow> char" where
  "lower_char c =
     (let n = (of_char c :: nat) in if 65 \<le> n \<and> n \<le> 90 then char_of (n + 32) else c)"

definition toLowerCase :: "string \<Rightarrow> string" where
  "toLowerCase s = map lower_char s"

text \<open>
  \<open>s.split(sep)\<close> for a one-character separator, as a scan that collects the current
  piece: never the empty array.
\<close>

fun split_scan :: "char \<Rightarrow> string \<Rightarrow> string \<Rightarrow> string list" where
  "split_scan sep piece [] = [piece]"
| "split_scan sep piece (c # s) =
     (if c = sep then piece # split_scan sep [] s else split_scan sep (piece @ [c]) s)"

definition split_on :: "char \<Rightarrow> string \<Rightarrow> string list" where
  "split_on sep s = split_scan sep [] s"

text \<open>\<open>parts.join(sep)\<close>.\<close>

fun join :: "string \<Rightarrow> string list \<Rightarrow> string" where
  "join sep [] = []"
| "join sep [p] = p"
| "join sep (p # q # ps) = p @ sep @ join sep (q # ps)"

text \<open>
  \<open>parseInt(s)\<close> without a radix: leading white space is skipped, a sign is read, a
  \<open>0x\<close> prefix selects radix 16, and the longest prefix of digits is converted; no digit
  at all gives \<open>NaN\<close>. Values are exact integers (the rounding of doubles above
  \<open>2^53\<close> is outside the model).
\<close>

definition is_ws :: "char \<Rightarrow> bool" where
  "is_ws c = (c \<in> set [CHR '' '', CHR 0x09, CHR 0x0A, CHR 0x0B, CHR 0x0C, CHR 0x0D])"

definition digit_of :: "nat \<Rightarrow> char \<Rightarrow> nat option" where
  "digit_of radix c =
     (let n = (of_char c :: nat);
          v = (if 48 \<le> n \<and> n \<le> 57 then Some (n - 48)
               else if 97 \<le> n \<and> n \<le> 122 then Some (n - 87)
               else if 65 \<le> n \<and> n \<le> 90 then Some (n - 55)
               else None)
      in case v of None \<Rightarrow> None | Some d \<Rightarrow> if d < radix then Some d else None)"

fun digits_value :: "nat \<Rightarrow> nat \<Rightarrow> string \<Rightarrow> nat" where
  "digits_value radix acc [] = acc"
| "digits_value radix acc (c # s) =
     (case digit_of radix c of
        None \<Rightarrow> acc
      | Some d \<Rightarrow> digits_value radix (acc * radix + d) s)"

definition parseInt :: "string option \<Rightarrow> int option" where
  "parseInt arg =
     (let s = (case arg of None \<Rightarrow> ''undefined'' | Some t \<Rightarrow> t);
          s1 = dropWhile is_ws s;
          neg = startsWith s1 ''-'';
          s2 = (if startsWith s1 ''-'' \<or> startsWith s1 ''+'' then drop 1 s1 else s1);
          hex = (startsWith s2 ''0x'' \<or> startsWith s2 ''0X'');
          radix = (if hex then 16 else 10);
          s3 = (if hex then drop 2 s2 else s2)
      in case s3 of
           [] \<Rightarrow> None
         | c # _ \<Rightarrow>
             (case digit_of radix c of
                None \<Rightarrow> None
              | Some _ \<Rightarrow>
                  Some ((if neg then - 1 else 1) * int (digits_value radix 0 s3))))"

text \<open>Decimal rendering of an integer, as template literals and \<open>String\<close> do.\<close>

definition digit_char :: "nat \<Rightarrow> char" where
  "digit_char d = char_of (48 + d)"

fun string_of_nat :: "nat \<Rightarrow> string" where
  "string_of_nat n =
     (if 10 \<le> n then string_of_nat (n div 10) @ [digit_char (n mod 10)]
      else [digit_char n])"

declare string_of_nat.simps [simp del]

definition string_of_number :: "int option \<Rightarrow> string" where
  "string_of_number v =
     (case v of
        None \<Rightarrow> ''NaN''
      | Some i \<Rightarrow>
          if 0 \<le> i then string_of_nat (nat i) else CHR ''-'' # string_of_nat (nat (- i)))"

text \<open>A template literal prints an undefined value as the word \<open>undefined\<close>.\<close>

definition template_str :: "string option \<Rightarrow> string" where
  "template_str v = (case v of None \<Rightarrow> ''undefined'' | Some s \<Rightarrow> s)"

text \<open>\<open>xs[i]\<close> on an array: \<open>undefined\<close> out of range.\<close>

definition at_index :: "'a list \<Rightarrow> nat \<Rightarrow> 'a option" where
  "at_index xs i = (if i < length xs then Some (xs ! i) else None)"


section \<open>The conversion script \<open>scripts/md-to-json.js\<close>\<close>

subsection \<open>Version tracking in \<open>processExerciseFiles\<close>\<close>

text \<open>
  The two files of the output directory that carry state from one run to the next:
  \<open>version.json\<close> and \<open>file-hashes.json\<close>; \<open>None\<close> is a file that does not exist.
\<close>

record version_record =
  version :: string
  lastUpdated :: string
  exerciseCount :: nat

record store =
  version_file :: "version_record option"
  hash_file :: "(string \<rightharpoonup> string) option"

text \<open>
  What \<open>parseMarkdownFile\<close> followed by \<open>validate\<close> does with one file: it throws
  (no front matter, a YAML error), it gives a record that fails the schema, or it gives a
  valid record. YAML, the lexer and the schema validator are libraries, so the outcome is a
  parameter \<open>parse\<close> of the run.
\<close>

datatype 'e parsed = Threw | Invalid | Valid 'e

record 'e run_acc =
  exercises :: "'e list"
  validCount :: nat
  invalidCount :: nat
  hasChanges :: bool
  currentHashes :: "string \<rightharpoonup> string"

definition run_init :: "'e run_acc" where
  "run_init = \<lparr>exercises = [], validCount = 0, invalidCount = 0, hasChanges = False,
                currentHashes = Map.empty\<rparr>"

text \<open>
  The body of the loop over the files found by \<open>glob\<close>. \<open>readFile\<close> is the file system
  (\<open>None\<close>: \<open>readFileSync\<close> throws, which the \<open>catch\<close> counts as an invalid file) and
  \<open>calculateHash\<close> is the MD5 digest of the crypto library.
\<close>

definition process_file ::
  "(string \<Rightarrow> string) \<Rightarrow> (string \<Rightarrow> string \<Rightarrow> 'e parsed) \<Rightarrow> (string \<rightharpoonup> string) \<Rightarrow>
   (string \<rightharpoonup> string) \<Rightarrow> 'e run_acc \<Rightarrow> string \<Rightarrow> 'e run_acc" where
  "process_file calculateHash parse readFile previousHashes acc file =
     (if endsWith file ''index.md'' then acc
      else case readFile file of
        None \<Rightarrow> acc\<lparr>invalidCount := invalidCount acc + 1\<rparr>
      | Some content \<Rightarrow>
          (let fileHash = calculateHash content;
               acc1 = acc\<lparr>currentHashes := (currentHashes acc)(file \<mapsto> fileHash)\<rparr>;
               acc2 = (if previousHashes file \<noteq> Some fileHash
                       then acc1\<lparr>hasChanges := True\<rparr> else acc1)
           in case parse file content of
                Valid e \<Rightarrow> acc2\<lparr>exercises := exercises acc2 @ [e],
                                 validCount := validCount acc2 + 1\<rparr>
              | Invalid \<Rightarrow> acc2\<lparr>invalidCount := invalidCount acc2 + 1\<rparr>
              | Threw \<Rightarrow> acc2\<lparr>invalidCount := invalidCount acc2 + 1\<rparr>))"

text \<open>The version update of a changed run.\<close>

definition bump_version :: "string \<Rightarrow> string" where
  "bump_version currentVersion =
     (let versionParts = split_on CHR ''.'' currentVersion;
          patch = map_option (\<lambda>n. n + 1) (parseInt (at_index versionParts 2))
      in template_str (at_index versionParts 0) @ ''.'' @
         template_str (at_index versionParts 1) @ ''.'' @ string_of_number patch)"

text \<open>
  One run of the script on the store: the version is read when the module loads
  (\<open>1.0.0\<close> without a version file), the ledger when the run starts; both files are
  written at the end. \<open>now\<close> is \<open>new Date().toISOString()\<close>.
\<close>

definition load_version :: "store \<Rightarrow> string" where
  "load_version st = (case version_file st of None \<Rightarrow> ''1.0.0'' | Some v \<Rightarrow> version v)"

definition load_hashes :: "store \<Rightarrow> (string \<rightharpoonup> string)" where
  "load_hashes st = (case hash_file st of None \<Rightarrow> Map.empty | Some h \<Rightarrow> h)"

definition run_files ::
  "(string \<Rightarrow> string) \<Rightarrow> (string \<Rightarrow> string \<Rightarrow> 'e parsed) \<Rightarrow> (string \<rightharpoonup> string) \<Rightarrow>
   (string \<rightharpoonup> string) \<Rightarrow> string list \<Rightarrow> 'e run_acc" where
  "run_files calculateHash parse readFile previousHashes files =
     foldl (process_file calculateHash parse readFile previousHashes) run_init files"

definition processExerciseFiles ::
  "(string \<Rightarrow> string) \<Rightarrow> (string \<Rightarrow> string \<Rightarrow> 'e parsed) \<Rightarrow> string \<Rightarrow>
   string list \<Rightarrow> (string \<rightharpoonup> string) \<Rightarrow> store \<Rightarrow> store" where
  "processExerciseFiles calculateHash parse now files readFile st =
     (let acc = run_files calculateHash parse readFile (load_hashes st) files;
          currentVersion = (if hasChanges acc then bump_version (load_version st)
                            else load_version st)
      in st\<lparr>hash_file := Some (currentHashes acc),
            version_file := Some \<lparr>version = currentVersion, lastUpdated = now,
                                  exerciseCount = validCount acc\<rparr>\<rparr>)"

text \<open>
  The source files a run computes a digest for: found by \<open>glob\<close>, not an index file, and
  readable.
\<close>

definition hashed_files :: "string list \<Rightarrow> (string \<rightharpoonup> string) \<Rightarrow> string list" where
  "hashed_files files readFile =
     filter (\<lambda>f. \<not> endsWith f ''index.md'' \<and> readFile f \<noteq> None) files"

definition digest_of :: "(string \<Rightarrow> string) \<Rightarrow> (string \<rightharpoonup> string) \<Rightarrow> string \<Rightarrow> string" where
  "digest_of calculateHash readFile f = calculateHash (the (readFile f))"

definition is_valid_file ::
  "(string \<Rightarrow> string \<Rightarrow> 'e parsed) \<Rightarrow> (string \<rightharpoonup> string) \<Rightarrow> string \<Rightarrow> bool" where
  "is_valid_file parse readFile f =
     (case parse f (the (readFile f)) of Valid e \<Rightarrow> True | _ \<Rightarrow> False)"

text \<open>
  The quantities a run is specified by: whether some computed digest differs from, or is
  missing in, the prior ledger; the ledger a run writes; the number of valid records.
\<close>

definition run_changed :: "(string \<Rightarrow> string) \<Rightarrow> (string \<rightharpoonup> string) \<Rightarrow> (string \<rightharpoonup> string) \<Rightarrow> string list \<Rightarrow> bool" where
  "run_changed calculateHash readFile previousHashes files =
     list_ex (\<lambda>f. previousHashes f \<noteq> Some (digest_of calculateHash readFile f))
       (hashed_files files readFile)"

definition refreshed_ledger :: "(string \<Rightarrow> string) \<Rightarrow> (string \<rightharpoonup> string) \<Rightarrow> string list \<Rightarrow> (string \<rightharpoonup> string)" where
  "refreshed_ledger calculateHash readFile files =
     (\<lambda>f. if f \<in> set (hashed_files files readFile)
          then Some (digest_of calculateHash readFile f) else None)"

definition valid_count :: "(string \<Rightarrow> string \<Rightarrow> 'e parsed) \<Rightarrow> (string \<rightharpoonup> string) \<Rightarrow> string list \<Rightarrow> nat" where
  "valid_count parse readFile files =
     length (filter (is_valid_file parse readFile) (hashed_files files readFile))"



definition demo_fs :: "string \<rightharpoonup> string" where
  "demo_fs = [''ex/squat.md'' \<mapsto> ''body'', ''ex/index.md'' \<mapsto> ''list'']"

definition demo_files :: "string list" where
  "demo_files = [''ex/index.md'', ''ex/squat.md'']"


subsection \<open>\<open>parseMarkdownFile\<close>: sections, asset links, mobile metadata\<close>

text \<open>
  The front matter, typed as the schema \<open>schemas/exercise.json\<close> types it: five required
  fields and three optional arrays.
\<close>

record front_matter =
  ex_id :: string
  name :: string
  category :: string
  primaryMuscles :: "string list"
  secondaryMuscles :: "string list option"
  equipment :: "string list option"
  difficulty :: string
  tags :: "string list option"

record mobile_metadata =
  displayOrder :: int
  categoryDisplayName :: string
  estimatedTime :: int
  hasVideo :: bool
  thumbnails :: "string list"

record exercise = front_matter +
  description :: string
  instructions :: "string list"
  tips :: "string list"
  variations :: "string list"
  images :: "string list"
  videos :: "string list"
  mobile :: mobile_metadata
  updatedAt :: string

text \<open>
  The block tokens of the lexer that the script looks at: a heading with its text, a
  paragraph with its text, a list with the texts of its items; every other token type is
  \<open>OtherToken\<close>.
\<close>

datatype token = Heading string | Paragraph string | ListBlock "string list" | OtherToken

record section_state =
  sections :: "string \<rightharpoonup> string list"
  currentSection :: "string option"

text \<open>
  One iteration of the loop over the tokens. \<open>currentSection &&\<close> is false for \<open>null\<close>
  and for the empty string. The entry of the current section always exists (the heading
  that set \<open>currentSection\<close> created it), so \<open>push\<close> never meets \<open>undefined\<close>.
\<close>

definition section_step :: "section_state \<Rightarrow> token \<Rightarrow> section_state" where
  "section_step s tok =
     (case tok of
        Heading text \<Rightarrow>
          \<lparr>sections = (sections s)(toLowerCase text \<mapsto> []),
           currentSection = Some (toLowerCase text)\<rparr>
      | ListBlock items \<Rightarrow>
          (case currentSection s of
             None \<Rightarrow> s
           | Some cur \<Rightarrow> if cur = [] then s else s\<lparr>sections := (sections s)(cur \<mapsto> items)\<rparr>)
      | Paragraph text \<Rightarrow>
          (case currentSection s of
             None \<Rightarrow> s
           | Some cur \<Rightarrow>
               if cur = [] then s
               else (case sections s cur of
                       None \<Rightarrow> s
                     | Some captured \<Rightarrow> s\<lparr>sections := (sections s)(cur \<mapsto> captured @ [text])\<rparr>))
      | OtherToken \<Rightarrow> s)"

definition extract_sections :: "token list \<Rightarrow> (string \<rightharpoonup> string list)" where
  "extract_sections tokens =
     sections (foldl section_step \<lparr>sections = Map.empty, currentSection = None\<rparr> tokens)"

text \<open>The rewriting of links that climb out of the document's directory.\<close>

definition absolute_url :: "string \<Rightarrow> string \<Rightarrow> string" where
  "absolute_url BASE_URL p = (if startsWith p ''../'' then BASE_URL @ ''/'' @ drop 3 p else p)"

text \<open>The thumbnail path of one image: \<open>split('.')\<close>, \<open>pop()\<close>, \<open>join('.')\<close>.\<close>

definition thumbnail_of :: "string \<Rightarrow> string" where
  "thumbnail_of imgPath =
     (let pathParts = split_on CHR ''.'' imgPath;
          ext = last pathParts;
          rest = butlast pathParts
      in join ''.'' rest @ ''-thumb.'' @ ext)"

definition getDifficultyOrder :: "string \<Rightarrow> int" where
  "getDifficultyOrder d =
     (if d = ''beginner'' then 1 else if d = ''intermediate'' then 2
      else if d = ''advanced'' then 3 else 999)"

definition categoryMap :: "(string \<times> string) list" where
  "categoryMap =
     [(''upper-body'', ''Upper Body''), (''lower-body'', ''Lower Body''), (''core'', ''Core''),
      (''cardio'', ''Cardio''), (''flexibility'', ''Flexibility'')]"

definition getCategoryDisplayName :: "string \<Rightarrow> string" where
  "getCategoryDisplayName c = (case map_of categoryMap c of None \<Rightarrow> c | Some n \<Rightarrow> n)"

text \<open>\<open>Math.round(30 * multiplier)\<close> for the multipliers 1, 1.2 and 1.5.\<close>

definition estimateExerciseTime :: "string \<Rightarrow> int" where
  "estimateExerciseTime d =
     (if d = ''advanced'' then 45 else if d = ''intermediate'' then 36 else 30)"

text \<open>
  The record built from a file. The lexer's tokens and the links found by the two regular
  expressions (\<open>extractImageLinks\<close>, \<open>extractVideoLinks\<close>) are inputs; \<open>BASE_URL\<close> is
  the configured base location and \<open>now\<close> the generation time.
\<close>

definition section_or_empty :: "(string \<rightharpoonup> string list) \<Rightarrow> string \<Rightarrow> string list" where
  "section_or_empty secs k = (case secs k of None \<Rightarrow> [] | Some xs \<Rightarrow> xs)"

definition build_record ::
  "string \<Rightarrow> string \<Rightarrow> front_matter \<Rightarrow> token list \<Rightarrow> string list \<Rightarrow> string list \<Rightarrow> exercise" where
  "build_record BASE_URL now metadata tokens imageLinks videoLinks =
     (let secs = extract_sections tokens;
          imgs = map (absolute_url BASE_URL) imageLinks;
          vids = map (absolute_url BASE_URL) videoLinks;
          mobileMetadata =
            \<lparr>displayOrder = getDifficultyOrder (difficulty metadata),
             categoryDisplayName = getCategoryDisplayName (category metadata),
             estimatedTime = estimateExerciseTime (difficulty metadata),
             hasVideo = (vids \<noteq> []),
             thumbnails = map thumbnail_of imgs\<rparr>
      in \<lparr>ex_id = ex_id metadata, name = name metadata, category = category metadata,
          primaryMuscles = primaryMuscles metadata,
          secondaryMuscles = secondaryMuscles metadata,
          equipment = equipment metadata, difficulty = difficulty metadata,
          tags = tags metadata,
          description = (case secs ''description'' of None \<Rightarrow> [] | Some ps \<Rightarrow> join [CHR 0x0A] ps),
          instructions = section_or_empty secs ''instructions'',
          tips = section_or_empty secs ''tips'',
          variations = section_or_empty secs ''variations'',
          images = imgs, videos = vids, mobile = mobileMetadata, updatedAt = now\<rparr>)"

text \<open>
  Reading aids for the claims about sections and thumbnails: the heading keys and the
  paragraph texts of a token list, and whether a string is another one with the suffix
  \<open>-thumb\<close> inserted at some position.
\<close>

fun is_heading :: "token \<Rightarrow> bool" where
  "is_heading (Heading t) = True"
| "is_heading other = False"

fun is_list :: "token \<Rightarrow> bool" where
  "is_list (ListBlock items) = True"
| "is_list other = False"

fun heading_keys :: "token list \<Rightarrow> string list" where
  "heading_keys [] = []"
| "heading_keys (Heading t # ts) = toLowerCase t # heading_keys ts"
| "heading_keys (other # ts) = heading_keys ts"

fun paragraph_texts :: "token list \<Rightarrow> string list" where
  "paragraph_texts [] = []"
| "paragraph_texts (Paragraph t # ts) = t # paragraph_texts ts"
| "paragraph_texts (other # ts) = paragraph_texts ts"

text \<open>
  What one section holds after the tokens that follow its heading: a paragraph appends
  its text, a list replaces what was captured.
\<close>

fun capture :: "string list \<Rightarrow> token list \<Rightarrow> string list" where
  "capture acc [] = acc"
| "capture acc (Paragraph t # ts) = capture (acc @ [t]) ts"
| "capture acc (ListBlock items # ts) = capture items ts"
| "capture acc (other # ts) = capture acc ts"

definition suffix_inserted :: "string \<Rightarrow> string \<Rightarrow> bool" where
  "suffix_inserted img thumb =
     list_ex (\<lambda>i. thumb = take i img @ ''-thumb'' @ drop i img) [0..<Suc (length img)]"

definition demo_front_matter :: front_matter where
  "demo_front_matter =
     \<lparr>ex_id = ''squat'', name = ''Squat'', category = ''lower-body'',
      primaryMuscles = [''quadriceps'', ''glutes''],
      secondaryMuscles = Some [''hamstrings'', ''calves''],
      equipment = Some [''none''], difficulty = ''beginner'',
      tags = Some [''compound'', ''bodyweight'']\<rparr>"

section \<open>The API server\<close>

subsection \<open>JSON values, the data directory, requests and responses\<close>

datatype json =
    JNull
  | JBool bool
  | JNum int
  | JStr string
  | JArr "json list"
  | JObj "(string \<times> json) list"

definition str_array :: "string list \<Rightarrow> json" where
  "str_array xs = JArr (map JStr xs)"

definition optional_array :: "string \<Rightarrow> string list option \<Rightarrow> (string \<times> json) list" where
  "optional_array k v = (case v of None \<Rightarrow> [] | Some xs \<Rightarrow> [(k, str_array xs)])"

text \<open>The JSON object the conversion script writes for a record.\<close>

definition exercise_json :: "exercise \<Rightarrow> json" where
  "exercise_json ex =
     JObj ([(''id'', JStr (ex_id ex)), (''name'', JStr (name ex)),
            (''category'', JStr (category ex)),
            (''primaryMuscles'', str_array (primaryMuscles ex))] @
           optional_array ''secondaryMuscles'' (secondaryMuscles ex) @
           optional_array ''equipment'' (equipment ex) @
           [(''difficulty'', JStr (difficulty ex))] @
           optional_array ''tags'' (tags ex) @
           [(''description'', JStr (description ex)),
            (''instructions'', str_array (instructions ex)),
            (''tips'', str_array (tips ex)),
            (''variations'', str_array (variations ex)),
            (''images'', str_array (images ex)),
            (''videos'', str_array (videos ex)),
            (''mobile'',
               JObj [(''displayOrder'', JNum (displayOrder (mobile ex))),
                     (''categoryDisplayName'', JStr (categoryDisplayName (mobile ex))),
                     (''estimatedTime'', JNum (estimatedTime (mobile ex))),
                     (''hasVideo'', JBool (hasVideo (mobile ex))),
                     (''thumbnails'', str_array (thumbnails (mobile ex)))]),
            (''updatedAt'', JStr (updatedAt ex))])"

text \<open>
  The data directory as the server reads it: the \<open>exercises\<close> array of the aggregate file
  \<open>exercises.json\<close> (\<open>None\<close>: the file does not exist), and the parsed content of
  \<open>\<langle>name\<rangle>.json\<close> for every name (\<open>None\<close>: no such file). The records of the aggregate
  file are typed as the schema types them, since the script writes only valid records.
\<close>

record data_dir =
  exercises_file :: "exercise list option"
  json_files :: "string \<rightharpoonup> json"

text \<open>
  A GET request: the segments of the URL path and \<open>req.query\<close> (each parameter a string).
\<close>

record request =
  req_path :: "string list"
  req_query :: "string \<rightharpoonup> string"

record list_metadata =
  total :: nat
  page :: int
  limit :: int
  pages :: int
  meta_version :: "string option"

text \<open>
  The responses: \<open>ErrorJson status message\<close> is \<open>res.status(status).json({error: message})\<close>;
  \<open>NoRoute\<close> is the framework's own 404 when no route matches; \<open>AssetsMiddleware\<close> hands the
  request to the static file server.
\<close>

datatype response =
    ErrorJson nat string
  | VersionJson string string
  | ListJson list_metadata "json list"
  | ExerciseJson json
  | BatchJson "json list"
  | CategoriesJson "(string \<times> string) list"
  | MusclesJson "string list"
  | RootJson
  | AssetsMiddleware
  | NoRoute

subsection \<open>Helpers of the handlers\<close>

text \<open>\<open>if (req.query.x)\<close>: the parameter is present and not the empty string.\<close>

definition truthy :: "string option \<Rightarrow> bool" where
  "truthy p = (case p of None \<Rightarrow> False | Some s \<Rightarrow> s \<noteq> [])"

text \<open>\<open>arr && arr.includes(x)\<close> on an optional array.\<close>

definition includes_opt :: "string list option \<Rightarrow> string \<Rightarrow> bool" where
  "includes_opt arr x = (case arr of None \<Rightarrow> False | Some xs \<Rightarrow> x \<in> set xs)"

definition targets_muscle :: "string \<Rightarrow> exercise \<Rightarrow> bool" where
  "targets_muscle m ex =
     (m \<in> set (primaryMuscles ex) \<or> includes_opt (secondaryMuscles ex) m)"

definition has_some_tag :: "string list \<Rightarrow> exercise \<Rightarrow> bool" where
  "has_some_tag wanted ex =
     (case tags ex of None \<Rightarrow> False | Some ts \<Rightarrow> list_ex (\<lambda>tag. tag \<in> set ts) wanted)"

text \<open>\<open>if (param) { exercises = exercises.filter(pred) }\<close>.\<close>

definition filter_if ::
  "string option \<Rightarrow> (string \<Rightarrow> exercise \<Rightarrow> bool) \<Rightarrow> exercise list \<Rightarrow> exercise list" where
  "filter_if param pred exs =
     (case param of None \<Rightarrow> exs | Some v \<Rightarrow> if v = [] then exs else filter (pred v) exs)"

text \<open>\<open>parseInt(param) || dflt\<close>: \<open>NaN\<close> and 0 give the default.\<close>

definition parse_or :: "string option \<Rightarrow> int \<Rightarrow> int" where
  "parse_or param dflt =
     (case parseInt param of None \<Rightarrow> dflt | Some n \<Rightarrow> if n = 0 then dflt else n)"

text \<open>\<open>xs.slice(start, end)\<close>: negative indices count from the end.\<close>

definition js_slice :: "'a list \<Rightarrow> int \<Rightarrow> int \<Rightarrow> 'a list" where
  "js_slice xs start end =
     (let len = int (length xs);
          k = (if start < 0 then max (len + start) 0 else min start len);
          final = (if end < 0 then max (len + end) 0 else min end len)
      in take (nat (final - k)) (drop (nat k) xs))"

text \<open>\<open>Math.ceil(a / b)\<close> on integers, \<open>b\<close> not zero.\<close>

definition ceil_div :: "int \<Rightarrow> int \<Rightarrow> int" where
  "ceil_div a b = - ((- a) div b)"

text \<open>Property access on a parsed JSON value and assignment to a property of an object.\<close>

definition obj_get :: "json \<Rightarrow> string \<Rightarrow> json option" where
  "obj_get j field = (case j of JObj kvs \<Rightarrow> map_of kvs field | _ \<Rightarrow> None)"

fun obj_set :: "string \<Rightarrow> json \<Rightarrow> (string \<times> json) list \<Rightarrow> (string \<times> json) list" where
  "obj_set k v [] = [(k, v)]"
| "obj_set k v ((k', v') # kvs) =
     (if k = k' then (k, v) # kvs else (k', v') # obj_set k v kvs)"

text \<open>The field selection: only fields that are defined on the record are copied.\<close>

definition select_fields :: "string list \<Rightarrow> json \<Rightarrow> json" where
  "select_fields wanted ex =
     JObj (foldl (\<lambda>filtered field.
                    case obj_get ex field of
                      None \<Rightarrow> filtered
                    | Some v \<Rightarrow> obj_set field v filtered) [] wanted)"

text \<open>How a response shows a record: whole, or projected when \<open>fields\<close> is given.\<close>

definition shown :: "string option \<Rightarrow> exercise \<Rightarrow> json" where
  "shown fieldsParam ex =
     (case fieldsParam of
        None \<Rightarrow> exercise_json ex
      | Some f \<Rightarrow> if f = [] then exercise_json ex
                  else select_fields (split_on CHR '','' f) (exercise_json ex))"

subsection \<open>The handlers\<close>

definition list_filters :: "(string \<rightharpoonup> string) \<Rightarrow> exercise list \<Rightarrow> exercise list" where
  "list_filters q data =
     (let e1 = filter_if (q ''category'') (\<lambda>c ex. category ex = c) data;
          e2 = filter_if (q ''difficulty'') (\<lambda>d ex. difficulty ex = d) e1;
          e3 = filter_if (q ''equipment'') (\<lambda>e ex. includes_opt (equipment ex) e) e2;
          e4 = filter_if (q ''muscle'') targets_muscle e3;
          e5 = filter_if (q ''tags'') (\<lambda>t. has_some_tag (split_on CHR '','' t)) e4
      in e5)"

definition list_handler :: "string \<Rightarrow> data_dir \<Rightarrow> (string \<rightharpoonup> string) \<Rightarrow> response" where
  "list_handler dataVersion dir q =
     (case exercises_file dir of
        None \<Rightarrow> ErrorJson 404 ''No exercise data found. Run the conversion script first.''
      | Some data \<Rightarrow>
          (let exs = list_filters q data;
               pg = parse_or (q ''page'') 1;
               lmt = parse_or (q ''limit'') 20;
               startIndex = (pg - 1) * lmt;
               endIndex = pg * lmt;
               paginatedExercises = js_slice exs startIndex endIndex
           in ListJson
                \<lparr>total = length exs, page = pg, limit = lmt,
                 pages = ceil_div (int (length exs)) lmt, meta_version = Some dataVersion\<rparr>
                (map (shown (q ''fields'')) paginatedExercises)))"

definition get_by_id_handler :: "data_dir \<Rightarrow> string \<Rightarrow> (string \<rightharpoonup> string) \<Rightarrow> response" where
  "get_by_id_handler dir ident q =
     (case json_files dir ident of
        None \<Rightarrow> ErrorJson 404 ''Exercise not found''
      | Some exercise \<Rightarrow>
          (case q ''fields'' of
             None \<Rightarrow> ExerciseJson exercise
           | Some f \<Rightarrow> if f = [] then ExerciseJson exercise
                       else ExerciseJson (select_fields (split_on CHR '','' f) exercise)))"

definition batch_handler :: "data_dir \<Rightarrow> (string \<rightharpoonup> string) \<Rightarrow> response" where
  "batch_handler dir q =
     (case q ''ids'' of
        None \<Rightarrow> ErrorJson 400 ''IDs parameter is required''
      | Some s \<Rightarrow>
          if s = [] then ErrorJson 400 ''IDs parameter is required''
          else BatchJson
                 (concat (map (\<lambda>ident. case json_files dir ident of
                                          None \<Rightarrow> [] | Some e \<Rightarrow> [e])
                              (split_on CHR '','' s))))"

definition text_match :: "string \<Rightarrow> exercise \<Rightarrow> bool" where
  "text_match searchQuery ex =
     (includes_str (toLowerCase (name ex)) searchQuery \<or>
      (description ex \<noteq> [] \<and> includes_str (toLowerCase (description ex)) searchQuery) \<or>
      (case tags ex of
         None \<Rightarrow> False
       | Some ts \<Rightarrow> list_ex (\<lambda>tag. includes_str (toLowerCase tag) searchQuery) ts))"

definition search_filters :: "(string \<rightharpoonup> string) \<Rightarrow> exercise list \<Rightarrow> exercise list" where
  "search_filters q data =
     (let r1 = filter_if (q ''query'') (\<lambda>qu. text_match (toLowerCase qu)) data;
          r2 = filter_if (q ''category'') (\<lambda>c ex. category ex = c) r1;
          r3 = filter_if (q ''difficulty'') (\<lambda>d ex. difficulty ex = d) r2;
          r4 = filter_if (q ''equipment'') (\<lambda>e ex. includes_opt (equipment ex) e) r3;
          r5 = filter_if (q ''muscle'') targets_muscle r4
      in r5)"

definition no_criteria :: "(string \<rightharpoonup> string) \<Rightarrow> bool" where
  "no_criteria q =
     (\<not> truthy (q ''query'') \<and> \<not> truthy (q ''category'') \<and> \<not> truthy (q ''difficulty'') \<and>
      \<not> truthy (q ''equipment'') \<and> \<not> truthy (q ''muscle''))"

definition search_handler :: "data_dir \<Rightarrow> (string \<rightharpoonup> string) \<Rightarrow> response" where
  "search_handler dir q =
     (if no_criteria q then ErrorJson 400 ''At least one search parameter is required''
      else case exercises_file dir of
        None \<Rightarrow> ErrorJson 404 ''No exercise data found''
      | Some data \<Rightarrow>
          (let results = search_filters q data;
               pg = parse_or (q ''page'') 1;
               lmt = parse_or (q ''limit'') 20;
               startIndex = (pg - 1) * lmt;
               endIndex = pg * lmt;
               paginatedResults = js_slice results startIndex endIndex
           in ListJson
                \<lparr>total = length results, page = pg, limit = lmt,
                 pages = ceil_div (int (length results)) lmt, meta_version = None\<rparr>
                (map exercise_json paginatedResults)))"

definition categories_table :: "(string \<times> string) list" where
  "categories_table =
     [(''upper-body'', ''Upper Body''), (''lower-body'', ''Lower Body''), (''core'', ''Core''),
      (''cardio'', ''Cardio''), (''flexibility'', ''Flexibility'')]"

definition categories_handler :: response where
  "categories_handler = CategoriesJson categories_table"

text \<open>\<open>muscleSet.add\<close>: a set that keeps insertion order.\<close>

definition set_add :: "string list \<Rightarrow> string \<Rightarrow> string list" where
  "set_add s x = (if x \<in> set s then s else s @ [x])"

definition add_muscles :: "string list \<Rightarrow> exercise \<Rightarrow> string list" where
  "add_muscles muscleSet ex =
     foldl set_add (foldl set_add muscleSet (primaryMuscles ex))
       (case secondaryMuscles ex of None \<Rightarrow> [] | Some ms \<Rightarrow> ms)"

definition muscles_handler :: "data_dir \<Rightarrow> response" where
  "muscles_handler dir =
     (case exercises_file dir of
        None \<Rightarrow> ErrorJson 404 ''No exercise data found''
      | Some data \<Rightarrow> MusclesJson (sort (foldl add_muscles [] data)))"

subsection \<open>Routing\<close>

text \<open>
  Routes are tried in the order of their registration and the first one whose pattern
  matches the path handles the request (no handler passes the request on). A literal
  segment matches without regard to case; \<open>:id\<close> matches any segment.
\<close>

datatype segment = Lit string | Param

datatype handler =
  VersionH | ListH | GetByIdH | BatchH | SearchH | CategoriesH | MusclesH | RootH

fun match_path :: "segment list \<Rightarrow> string list \<Rightarrow> string list option" where
  "match_path [] [] = Some []"
| "match_path (Lit l # ps) (s # ss) =
     (if toLowerCase s = toLowerCase l then match_path ps ss else None)"
| "match_path (Param # ps) (s # ss) = map_option ((#) s) (match_path ps ss)"
| "match_path ps ss = None"

definition routes :: "(segment list \<times> handler) list" where
  "routes =
     [([Lit ''api'', Lit ''v1'', Lit ''version''], VersionH),
      ([Lit ''api'', Lit ''v1'', Lit ''exercises''], ListH),
      ([Lit ''api'', Lit ''v1'', Lit ''exercises'', Param], GetByIdH),
      ([Lit ''api'', Lit ''v1'', Lit ''exercises'', Lit ''batch''], BatchH),
      ([Lit ''api'', Lit ''v1'', Lit ''search''], SearchH),
      ([Lit ''api'', Lit ''v1'', Lit ''categories''], CategoriesH),
      ([Lit ''api'', Lit ''v1'', Lit ''muscles''], MusclesH),
      ([], RootH)]"

fun find_route ::
  "(segment list \<times> handler) list \<Rightarrow> string list \<Rightarrow> (handler \<times> string list) option" where
  "find_route [] p = None"
| "find_route ((pat, h) # rs) p =
     (case match_path pat p of
        Some params \<Rightarrow> Some (h, params)
      | None \<Rightarrow> find_route rs p)"

definition API_VERSION :: string where
  "API_VERSION = ''1.0''"

definition handle_request :: "string \<Rightarrow> data_dir \<Rightarrow> request \<Rightarrow> response" where
  "handle_request dataVersion dir req =
     (let p = req_path req; q = req_query req in
      if p \<noteq> [] \<and> toLowerCase (hd p) = ''assets'' then AssetsMiddleware
      else case find_route routes p of
        None \<Rightarrow> NoRoute
      | Some (h, params) \<Rightarrow>
          (case h of
             VersionH \<Rightarrow> VersionJson dataVersion API_VERSION
           | ListH \<Rightarrow> list_handler dataVersion dir q
           | GetByIdH \<Rightarrow>
               (case params of
                  [ident] \<Rightarrow> get_by_id_handler dir ident q
                | _ \<Rightarrow> NoRoute)
           | BatchH \<Rightarrow> batch_handler dir q
           | SearchH \<Rightarrow> search_handler dir q
           | CategoriesH \<Rightarrow> categories_handler
           | MusclesH \<Rightarrow> muscles_handler dir
           | RootH \<Rightarrow> RootJson))"

subsection \<open>Two records and a data directory holding them\<close>

definition push_up :: exercise where
  "push_up =
     \<lparr>ex_id = ''push-up'', name = ''Push-up'', category = ''upper-body'',
      primaryMuscles = [''chest'', ''triceps'', ''shoulders''],
      secondaryMuscles = Some [''core''],
      equipment = Some [''none''], difficulty = ''beginner'',
      tags = Some [''bodyweight'', ''compound''],
      description = ''A bodyweight exercise.'',
      instructions = [''Start in a plank position''], tips = [], variations = [],
      images = [''https://host/main/assets/images/push-up.jpg''], videos = [],
      mobile = \<lparr>displayOrder = 1, categoryDisplayName = ''Upper Body'', estimatedTime = 30,
                hasVideo = False,
                thumbnails = [''https://host/main/assets/images/push-up-thumb.jpg'']\<rparr>,
      updatedAt = ''t''\<rparr>"

definition squat :: exercise where
  "squat =
     \<lparr>ex_id = ''squat'', name = ''Squat'', category = ''lower-body'',
      primaryMuscles = [''quadriceps'', ''glutes''],
      secondaryMuscles = Some [''hamstrings'', ''core''],
      equipment = Some [''none'', ''barbell''], difficulty = ''beginner'',
      tags = Some [''compound'', ''functional''],
      description = ''A fundamental lower body exercise.'',
      instructions = [''Stand with feet shoulder-width apart''], tips = [], variations = [],
      images = [''https://host/main/assets/images/squat.jpg''], videos = [],
      mobile = \<lparr>displayOrder = 1, categoryDisplayName = ''Lower Body'', estimatedTime = 30,
                hasVideo = False,
                thumbnails = [''https://host/main/assets/images/squat-thumb.jpg'']\<rparr>,
      updatedAt = ''t''\<rparr>"

definition demo_dir :: data_dir where
  "demo_dir =
     \<lparr>exercises_file = Some [push_up, squat],
      json_files = [''push-up'' \<mapsto> exercise_json push_up, ''squat'' \<mapsto> exercise_json squat]\<rparr>"

definition api_path :: "string list \<Rightarrow> string list" where
  "api_path rest = ''api'' # ''v1'' # rest"

subsection \<open>The vocabulary of the claims about the query engine\<close>

text \<open>A predicate that applies only when its parameter is supplied (and not empty).\<close>

definition when_given :: "string option \<Rightarrow> (string \<Rightarrow> bool) \<Rightarrow> bool" where
  "when_given param P = (case param of None \<Rightarrow> True | Some v \<Rightarrow> v = [] \<or> P v)"

text \<open>
  The records a Search request asks for: the text matches, and each supplied filter among
  category, difficulty, equipment and muscle holds.
\<close>

definition search_accepts :: "(string \<rightharpoonup> string) \<Rightarrow> exercise \<Rightarrow> bool" where
  "search_accepts q ex =
     (when_given (q ''query'') (\<lambda>t. text_match (toLowerCase t) ex) \<and>
      when_given (q ''category'') (\<lambda>c. category ex = c) \<and>
      when_given (q ''difficulty'') (\<lambda>d. difficulty ex = d) \<and>
      when_given (q ''equipment'') (\<lambda>e. includes_opt (equipment ex) e) \<and>
      when_given (q ''muscle'') (\<lambda>m. targets_muscle m ex))"

text \<open>
  The page of a list: the slice that starts at offset \<open>(page - 1) * limit\<close> and has at most
  \<open>limit\<close> elements.
\<close>

definition page_of :: "int \<Rightarrow> int \<Rightarrow> 'a list \<Rightarrow> 'a list" where
  "page_of pg lmt xs = take (nat lmt) (drop (nat ((pg - 1) * lmt)) xs)"

text \<open>The muscles a record names, primary and secondary.\<close>

definition muscles_of :: "exercise \<Rightarrow> string set" where
  "muscles_of ex =
     set (primaryMuscles ex) \<union> (case secondaryMuscles ex of None \<Rightarrow> {} | Some ms \<Rightarrow> set ms)"

definition empty_dir :: data_dir where
  "empty_dir = \<lparr>exercises_file = Some [], json_files = Map.empty\<rparr>"

definition dir_of :: "exercise list \<Rightarrow> data_dir" where
  "dir_of data = \<lparr>exercises_file = Some data, json_files = Map.empty\<rparr>"

section \<open>Properties of the version tracker\<close>

subsection \<open>The loop over the source files\<close>

lemma process_file_hashes:
  "currentHashes (process_file h p rd prev acc f) =
     (if \<not> endsWith f ''index.md'' \<and> rd f \<noteq> None
      then (currentHashes acc)(f \<mapsto> digest_of h rd f) else currentHashes acc)"
  by (auto simp: process_file_def digest_of_def Let_def split: option.splits parsed.splits)

lemma process_file_changes:
  "hasChanges (process_file h p rd prev acc f) =
     (hasChanges acc \<or>
      (\<not> endsWith f ''index.md'' \<and> rd f \<noteq> None \<and> prev f \<noteq> Some (digest_of h rd f)))"
  by (auto simp: process_file_def digest_of_def Let_def split: option.splits parsed.splits)

lemma process_file_valid:
  "validCount (process_file h p rd prev acc f) =
     validCount acc +
     (if \<not> endsWith f ''index.md'' \<and> rd f \<noteq> None \<and> is_valid_file p rd f then 1 else 0)"
  by (auto simp: process_file_def is_valid_file_def Let_def split: option.splits parsed.splits)

lemma foldl_hashes:
  "currentHashes (foldl (process_file h p rd prev) acc fs) x =
     (if x \<in> set (hashed_files fs rd) then Some (digest_of h rd x) else currentHashes acc x)"
  by (induction fs arbitrary: acc) (auto simp: process_file_hashes hashed_files_def)

lemma foldl_changes:
  "hasChanges (foldl (process_file h p rd prev) acc fs) =
     (hasChanges acc \<or> (\<exists>f\<in>set (hashed_files fs rd). prev f \<noteq> Some (digest_of h rd f)))"
  by (induction fs arbitrary: acc) (auto simp: process_file_changes hashed_files_def)

lemma foldl_valid:
  "validCount (foldl (process_file h p rd prev) acc fs) =
     validCount acc + length (filter (is_valid_file p rd) (hashed_files fs rd))"
  by (induction fs arbitrary: acc) (auto simp: process_file_valid hashed_files_def)

lemma run_files_hashes: "currentHashes (run_files h p rd prev fs) = refreshed_ledger h rd fs"
  by (rule ext) (simp add: run_files_def foldl_hashes refreshed_ledger_def run_init_def)

lemma run_files_changes: "hasChanges (run_files h p rd prev fs) = run_changed h rd prev fs"
  by (simp add: run_files_def foldl_changes run_changed_def run_init_def list_ex_iff)

lemma run_files_valid: "validCount (run_files h p rd prev fs) = valid_count p rd fs"
  by (simp add: run_files_def foldl_valid valid_count_def run_init_def)

lemma processExerciseFiles_eq:
  "processExerciseFiles h p now files rd st =
     st\<lparr>hash_file := Some (refreshed_ledger h rd files),
        version_file := Some \<lparr>version = (if run_changed h rd (load_hashes st) files
                                          then bump_version (load_version st)
                                          else load_version st),
                              lastUpdated = now,
                              exerciseCount = valid_count p rd files\<rparr>\<rparr>"
  by (simp add: processExerciseFiles_def Let_def run_files_hashes run_files_changes run_files_valid)

subsection \<open>Reading and printing the patch number\<close>






lemma split_scan_piece:
  "sep \<notin> set a \<Longrightarrow> split_scan sep piece (a @ r) = split_scan sep (piece @ a) r"
  by (induction a arbitrary: piece) auto









subsection \<open>Claims about a run\<close>





text \<open>
  C10. If the digest of every source file found equals its entry in the prior ledger, the
  run is not a changed run, whatever other entries the prior ledger holds: the version is
  not incremented, and the ledger written has no entry for a path that was not found.
\<close>

theorem removed_source_not_a_change:
  assumes "\<forall>f\<in>set (hashed_files files readFile).
             load_hashes st f = Some (digest_of calculateHash readFile f)"
  shows "let st' = processExerciseFiles calculateHash parse now files readFile st in
           \<not> run_changed calculateHash readFile (load_hashes st) files \<and>
           map_option version (version_file st') = Some (load_version st) \<and>
           (\<exists>ledger. hash_file st' = Some ledger \<and>
              (\<forall>g. g \<notin> set (hashed_files files readFile) \<longrightarrow> ledger g = None))"
  using assms
  by (simp add: processExerciseFiles_eq Let_def run_changed_def list_ex_iff refreshed_ledger_def)


theorem removed_source_not_a_change_witness:
  "let st = \<lparr>version_file = Some \<lparr>version = ''1.0.1'', lastUpdated = ''t1'', exerciseCount = 1\<rparr>,
              hash_file = Some [''ex/squat.md'' \<mapsto> ''ydob'', ''ex/gone.md'' \<mapsto> ''x'']\<rparr>;
       st' = processExerciseFiles rev (\<lambda>f c. Valid c) ''t2'' demo_files demo_fs st
   in load_hashes st ''ex/gone.md'' = Some ''x'' \<and>
      ''ex/gone.md'' \<notin> set (hashed_files demo_files demo_fs) \<and>
      map_option version (version_file st') = Some ''1.0.1'' \<and>
      (\<exists>ledger. hash_file st' = Some ledger \<and> ledger ''ex/gone.md'' = None)"
proof -
  define st where "st = \<lparr>version_file = Some \<lparr>version = ''1.0.1'', lastUpdated = ''t1'', exerciseCount = 1\<rparr>,
              hash_file = Some [''ex/squat.md'' \<mapsto> ''ydob'', ''ex/gone.md'' \<mapsto> ''x'']\<rparr>"
  have h: "\<forall>f\<in>set (hashed_files demo_files demo_fs). load_hashes st f = Some (digest_of rev demo_fs f)"
    unfolding st_def by code_simp
  have g: "load_hashes st ''ex/gone.md'' = Some ''x''" "''ex/gone.md'' \<notin> set (hashed_files demo_files demo_fs)"
    "load_version st = ''1.0.1''"
    unfolding st_def by code_simp+
  show ?thesis
    using removed_source_not_a_change [OF h, where parse = "\<lambda>f c. Valid c" and now = "''t2''"] g
    unfolding st_def [symmetric] by (auto simp: Let_def)
qed

section \<open>Properties of \<open>parseMarkdownFile\<close>\<close>

subsection \<open>Thumbnails\<close>

lemma split_scan_not_Nil: "split_scan c piece s \<noteq> []"
  by (induction s arbitrary: piece) auto

lemma split_scan_snoc:
  "c \<notin> set ext \<Longrightarrow> split_scan c piece (base @ c # ext) = split_scan c piece base @ [ext]"
proof (induction base arbitrary: piece)
  case Nil
  then show ?case using split_scan_piece [of c ext "[]" "[]"] by simp
next
  case (Cons b base)
  then show ?case by simp
qed

lemma split_on_snoc: "c \<notin> set ext \<Longrightarrow> split_on c (base @ c # ext) = split_on c base @ [ext]"
  by (simp add: split_on_def split_scan_snoc)

lemma join_split_scan: "join [c] (split_scan c piece s) = piece @ s"
proof (induction s arbitrary: piece)
  case Nil
  show ?case by simp
next
  case (Cons a s)
  show ?case
  proof (cases "a = c")
    case True
    obtain p ps where ps: "split_scan c [] s = p # ps"
      using split_scan_not_Nil [of c "[]" s] by (cases "split_scan c [] s") auto
    have "join [c] (p # ps) = s" using Cons [of "[]"] ps by simp
    with True ps show ?thesis by simp
  next
    case False
    with Cons [of "piece @ [a]"] show ?thesis by simp
  qed
qed

lemma join_split_on: "join [c] (split_on c s) = s"
  by (simp add: split_on_def join_split_scan)

lemma thumbnail_of_dotted:
  assumes "CHR ''.'' \<notin> set ext"
  shows "thumbnail_of (base @ ''.'' @ ext) = base @ ''-thumb.'' @ ext"
  using assms by (simp add: thumbnail_of_def Let_def split_on_snoc join_split_on)

text \<open>
  C8 (as amended). The record built from a file has exactly one thumbnail per image, and
  for every index whose image contains a dot, the thumbnail is the image with \<open>-thumb\<close>
  inserted immediately before its last dot, the text after the last dot being the file
  extension.
\<close>

theorem thumbnails_positional:
  "let r = build_record BASE_URL now metadata tokens imageLinks videoLinks in
     length (thumbnails (mobile r)) = length (images r) \<and>
     (\<forall>i<length (images r). \<forall>base ext.
        images r ! i = base @ ''.'' @ ext \<and> CHR ''.'' \<notin> set ext \<longrightarrow>
        thumbnails (mobile r) ! i = base @ ''-thumb.'' @ ext)"
proof -
  define imgs where "imgs = map (absolute_url BASE_URL) imageLinks"
  have "\<forall>i<length imgs. \<forall>base ext.
          imgs ! i = base @ ''.'' @ ext \<and> CHR ''.'' \<notin> set ext \<longrightarrow>
          map thumbnail_of imgs ! i = base @ ''-thumb.'' @ ext"
    using thumbnail_of_dotted by (metis nth_map)
  then show ?thesis
    unfolding build_record_def Let_def imgs_def by simp
qed

theorem thumbnails_positional_witness:
  "let r = build_record ''https://host/main'' ''t'' demo_front_matter []
             [''../../../assets/images/squat.jpg'', ''side.view.png''] [] in
     images r = [''https://host/main/../../assets/images/squat.jpg'', ''side.view.png''] \<and>
     length (thumbnails (mobile r)) = length (images r) \<and>
     thumbnails (mobile r) ! 1 = ''side.view'' @ ''-thumb.'' @ ''png''"
proof -
  define r where "r = build_record ''https://host/main'' ''t'' demo_front_matter []
             [''../../../assets/images/squat.jpg'', ''side.view.png''] []"
  have i: "images r = [''https://host/main/../../assets/images/squat.jpg'', ''side.view.png'']"
    unfolding r_def by (simp add: build_record_def Let_def absolute_url_def)
  have h: "images r ! 1 = ''side.view'' @ ''.'' @ ''png'' \<and> CHR ''.'' \<notin> set ''png''"
    by (simp add: i)
  have "1 < length (images r)" by (simp add: i)
  with h thumbnails_positional [where BASE_URL = "''https://host/main''" and now = "''t''"
      and metadata = demo_front_matter and tokens = "[]"
      and imageLinks = "[''../../../assets/images/squat.jpg'', ''side.view.png'']"
      and videoLinks = "[]"]
  have "length (thumbnails (mobile r)) = length (images r) \<and>
        thumbnails (mobile r) ! 1 = ''side.view'' @ ''-thumb.'' @ ''png''"
    unfolding r_def [symmetric] Let_def by blast
  with i show ?thesis unfolding r_def [symmetric] Let_def by blast
qed

text \<open>
  C8 as stated fails for an image reference without any dot: the thumbnail of \<open>squat\<close>
  is \<open>-thumb.squat\<close>, which is not \<open>squat\<close> with the suffix inserted anywhere.
\<close>

theorem thumbnail_without_extension_counterexample:
  "images (build_record ''https://host/main'' ''t'' demo_front_matter [] [''squat''] []) =
     [''squat''] \<and>
   thumbnails (mobile (build_record ''https://host/main'' ''t'' demo_front_matter [] [''squat''] [])) =
     [''-thumb.squat''] \<and>
   \<not> suffix_inserted ''squat'' ''-thumb.squat''"
proof -
  have t: "thumbnail_of ''squat'' = ''-thumb.squat''"
    by code_simp
  have n: "\<not> suffix_inserted ''squat'' ''-thumb.squat''"
    by code_simp
  show ?thesis
    using n by (simp add: build_record_def Let_def absolute_url_def t)
qed

subsection \<open>Sections\<close>

lemma section_step_frame:
  assumes "currentSection s \<noteq> Some k" "k \<notin> set (heading_keys [tok])"
  shows "currentSection (section_step s tok) \<noteq> Some k \<and>
         sections (section_step s tok) k = sections s k"
  using assms by (cases tok) (auto simp: section_step_def split: option.splits)

lemma heading_keys_Cons:
  "k \<notin> set (heading_keys (tok # ts)) \<longleftrightarrow>
   k \<notin> set (heading_keys [tok]) \<and> k \<notin> set (heading_keys ts)"
  by (cases tok) auto

lemma sections_frame:
  "currentSection s \<noteq> Some k \<Longrightarrow> k \<notin> set (heading_keys ts) \<Longrightarrow>
   sections (foldl section_step s ts) k = sections s k"
proof (induction ts arbitrary: s)
  case Nil
  show ?case by simp
next
  case (Cons tok ts)
  from Cons.prems have a: "k \<notin> set (heading_keys [tok])" and b: "k \<notin> set (heading_keys ts)"
    using heading_keys_Cons by blast+
  from section_step_frame [OF Cons.prems(1) a] Cons.IH [OF _ b]
  show ?case by simp
qed

lemma section_step_body:
  assumes "currentSection s = Some k" "k \<noteq> []" "sections s k = Some xs" "\<not> is_heading tok"
  shows "currentSection (section_step s tok) = Some k \<and>
         sections (section_step s tok) k = Some (capture xs [tok])"
  using assms by (cases tok) (auto simp: section_step_def)

lemma capture_Cons: "capture xs (tok # ts) = capture (capture xs [tok]) ts"
  by (cases tok) auto

lemma sections_body:
  "currentSection s = Some k \<Longrightarrow> k \<noteq> [] \<Longrightarrow> sections s k = Some xs \<Longrightarrow>
   \<forall>tok\<in>set body. \<not> is_heading tok \<Longrightarrow>
   currentSection (foldl section_step s body) = Some k \<and>
   sections (foldl section_step s body) k = Some (capture xs body)"
proof (induction body arbitrary: s xs)
  case Nil
  then show ?case by simp
next
  case (Cons tok body)
  from Cons.prems have h: "\<not> is_heading tok" and r: "\<forall>x\<in>set body. \<not> is_heading x"
    by simp_all
  from section_step_body [OF Cons.prems(1-3) h]
  have "currentSection (section_step s tok) = Some k"
    and "sections (section_step s tok) k = Some (capture xs [tok])" by simp_all
  from Cons.IH [OF this(1) Cons.prems(2) this(2) r] show ?case
    by (simp add: capture_Cons [of xs tok body])
qed

lemma capture_paragraphs:
  "\<forall>tok\<in>set body. \<not> is_list tok \<Longrightarrow> capture xs body = xs @ paragraph_texts body"
proof (induction body arbitrary: xs)
  case Nil
  show ?case by simp
next
  case (Cons tok body)
  then show ?case by (cases tok) auto
qed

lemma capture_list: "capture xs (b1 @ ListBlock items # b2) = capture items b2"
proof (induction b1 arbitrary: xs)
  case Nil
  show ?case by simp
next
  case (Cons tok b1)
  then show ?case by (cases tok) auto
qed

lemma extract_sections_section:
  assumes key: "toLowerCase t \<noteq> []"
    and body: "\<forall>tok\<in>set body. \<not> is_heading tok"
    and rest: "rest = [] \<or> is_heading (hd rest)"
    and later: "toLowerCase t \<notin> set (heading_keys rest)"
  shows "extract_sections (pre @ Heading t # body @ rest) (toLowerCase t) = Some (capture [] body)"
proof -
  define k where "k = toLowerCase t"
  define s0 where "s0 = foldl section_step \<lparr>sections = Map.empty, currentSection = None\<rparr> pre"
  define s1 where "s1 = section_step s0 (Heading t)"
  define s2 where "s2 = foldl section_step s1 body"
  have s1: "currentSection s1 = Some k" "sections s1 k = Some []"
    by (simp_all add: s1_def section_step_def k_def)
  from sections_body [OF s1(1) _ s1(2) body] key
  have s2: "currentSection s2 = Some k" "sections s2 k = Some (capture [] body)"
    by (simp_all add: s2_def k_def)
  have "sections (foldl section_step s2 rest) k = sections s2 k"
  proof (cases rest)
    case Nil
    then show ?thesis by simp
  next
    case (Cons tok rest')
    with rest obtain t' where tok: "tok = Heading t'" by (cases tok) auto
    with later Cons have ne: "toLowerCase t' \<noteq> k" and l: "k \<notin> set (heading_keys rest')"
      by (auto simp: k_def)
    have "currentSection (section_step s2 tok) \<noteq> Some k"
      and "sections (section_step s2 tok) k = sections s2 k"
      using ne by (auto simp: tok section_step_def)
    with sections_frame [OF this(1) l] show ?thesis by (simp add: Cons)
  qed
  with s2(2) have "sections (foldl section_step s2 rest) k = Some (capture [] body)"
    by simp
  then show ?thesis
    by (simp add: extract_sections_def s2_def s1_def s0_def k_def)
qed


text \<open>
  C9 (as amended). For a heading whose lower-cased text is not empty, followed by the
  blocks \<open>body\<close> up to the next heading, and not repeated later, the mapping holds under
  the lower-cased heading text: the paragraph texts of \<open>body\<close> if it has no list, and
  otherwise the items of its last list followed by the texts of the paragraphs after that
  list. A list replaces what was captured before it; a paragraph appends.
\<close>

theorem sections_paragraph_appends_list_replaces:
  assumes "toLowerCase t \<noteq> []"
    and "\<forall>tok\<in>set body. \<not> is_heading tok"
    and "rest = [] \<or> is_heading (hd rest)"
    and "toLowerCase t \<notin> set (heading_keys rest)"
  shows "((\<forall>tok\<in>set body. \<not> is_list tok) \<longrightarrow>
            extract_sections (pre @ Heading t # body @ rest) (toLowerCase t) =
              Some (paragraph_texts body)) \<and>
         (\<forall>b1 items b2.
            body = b1 @ ListBlock items # b2 \<and> (\<forall>tok\<in>set b2. \<not> is_list tok) \<longrightarrow>
            extract_sections (pre @ Heading t # body @ rest) (toLowerCase t) =
              Some (items @ paragraph_texts b2))"
  using extract_sections_section [OF assms] capture_paragraphs capture_list
  by auto

theorem sections_paragraph_appends_list_replaces_witness:
  "toLowerCase ''Tips'' \<noteq> [] \<and>
   extract_sections
     ([Heading ''Squat'', Paragraph ''intro''] @ Heading ''Tips'' #
      ([Paragraph ''p1''] @ ListBlock [''a'', ''b''] # [OtherToken, Paragraph ''p2'']) @
      [Heading ''Variations'', ListBlock [''v'']])
     (toLowerCase ''Tips'') =
   Some ([''a'', ''b''] @ paragraph_texts [OtherToken, Paragraph ''p2''])"
proof -
  have k: "toLowerCase ''Tips'' \<noteq> []"
    by (simp add: toLowerCase_def)
  have b: "\<forall>tok\<in>set ([Paragraph ''p1''] @ ListBlock [''a'', ''b''] # [OtherToken, Paragraph ''p2'']).
             \<not> is_heading tok"
    by simp
  have r: "[Heading ''Variations'', ListBlock [''v'']] = [] \<or>
           is_heading (hd [Heading ''Variations'', ListBlock [''v'']])"
    by simp
  have l: "toLowerCase ''Tips'' \<notin> set (heading_keys [Heading ''Variations'', ListBlock [''v'']])"
    by code_simp
  have n: "\<forall>tok\<in>set [OtherToken, Paragraph ''p2'']. \<not> is_list tok"
    by simp
  from sections_paragraph_appends_list_replaces [OF k b r l,
      where pre = "[Heading ''Squat'', Paragraph ''intro'']"] n
  have "extract_sections
     ([Heading ''Squat'', Paragraph ''intro''] @ Heading ''Tips'' #
      ([Paragraph ''p1''] @ ListBlock [''a'', ''b''] # [OtherToken, Paragraph ''p2'']) @
      [Heading ''Variations'', ListBlock [''v'']])
     (toLowerCase ''Tips'') =
   Some ([''a'', ''b''] @ paragraph_texts [OtherToken, Paragraph ''p2''])"
    by blast
  with k show ?thesis by blast
qed

text \<open>
  C9 as stated fails under a heading with empty text: \<open>currentSection\<close> is then the
  empty string, the guard of the loop is false, and neither a paragraph nor a list under
  that heading is captured.
\<close>

theorem sections_empty_heading_counterexample:
  "extract_sections [Heading [], Paragraph ''lost''] (toLowerCase []) = Some [] \<and>
   extract_sections [Heading [], ListBlock [''lost'']] (toLowerCase []) = Some []"
  by code_simp

section \<open>Properties of the API server\<close>

subsection \<open>Routing\<close>

lemma route_batch: "find_route routes (api_path [''exercises'', ''batch'']) = Some (GetByIdH, [''batch''])"
  by code_simp

lemma not_assets: "toLowerCase ''api'' \<noteq> ''assets''"
  by code_simp

lemma handle_api:
  "handle_request v dir \<lparr>req_path = api_path rest, req_query = q\<rparr> =
     (case find_route routes (api_path rest) of
        None \<Rightarrow> NoRoute
      | Some (h, params) \<Rightarrow>
          (case h of
             VersionH \<Rightarrow> VersionJson v API_VERSION
           | ListH \<Rightarrow> list_handler v dir q
           | GetByIdH \<Rightarrow>
               (case params of
                  [ident] \<Rightarrow> get_by_id_handler dir ident q
                | _ \<Rightarrow> NoRoute)
           | BatchH \<Rightarrow> batch_handler dir q
           | SearchH \<Rightarrow> search_handler dir q
           | CategoriesH \<Rightarrow> categories_handler
           | MusclesH \<Rightarrow> muscles_handler dir
           | RootH \<Rightarrow> RootJson))"
  using not_assets by (simp add: handle_request_def api_path_def Let_def)

lemma demo_no_batch_file: "json_files demo_dir ''batch'' = None"
  by (simp add: demo_dir_def)

lemma match_Lit_Cons:
  "match_path (Lit l # ps) p = Some r \<Longrightarrow>
   \<exists>s ss. p = s # ss \<and> toLowerCase s = toLowerCase l \<and> match_path ps ss = Some r"
  by (cases p) (auto split: if_splits)

lemma match_Nil: "match_path [] p = Some r \<Longrightarrow> p = []"
  by (cases p) auto

lemma match_id_route:
  assumes "match_path [Lit ''api'', Lit ''v1'', Lit ''exercises'', Lit ''batch''] p = Some ps"
  shows "match_path [Lit ''api'', Lit ''v1'', Lit ''exercises'', Param] p \<noteq> None"
proof -
  from match_Lit_Cons [OF assms] obtain s1 p1 where
    1: "p = s1 # p1" "toLowerCase s1 = toLowerCase ''api''"
       "match_path [Lit ''v1'', Lit ''exercises'', Lit ''batch''] p1 = Some ps" by blast
  from match_Lit_Cons [OF 1(3)] obtain s2 p2 where
    2: "p1 = s2 # p2" "toLowerCase s2 = toLowerCase ''v1''"
       "match_path [Lit ''exercises'', Lit ''batch''] p2 = Some ps" by blast
  from match_Lit_Cons [OF 2(3)] obtain s3 p3 where
    3: "p2 = s3 # p3" "toLowerCase s3 = toLowerCase ''exercises''"
       "match_path [Lit ''batch''] p3 = Some ps" by blast
  from match_Lit_Cons [OF 3(3)] obtain s4 p4 where
    4: "p3 = s4 # p4" "match_path [] p4 = Some ps" by blast
  from match_Nil [OF 4(2)] have "p4 = []" .
  with 1 2 3 4 show ?thesis by simp
qed

lemma batch_handler_unreachable: "find_route routes p \<noteq> Some (BatchH, ps)"
proof
  assume a: "find_route routes p = Some (BatchH, ps)"
  show False
  proof (cases "match_path [Lit ''api'', Lit ''v1'', Lit ''exercises'', Param] p")
    case None
    with a match_id_route [of p] show False
      by (auto simp: routes_def split: option.splits)
  next
    case (Some qs)
    with a show False
      by (auto simp: routes_def split: option.splits)
  qed
qed

lemma split_ids: "split_on CHR '','' ''push-up,nonexistent,squat'' = [''push-up'', ''nonexistent'', ''squat'']"
  by code_simp

lemma batch_handler_found_in_order:
  "batch_handler demo_dir [''ids'' \<mapsto> ''push-up,nonexistent,squat''] =
     BatchJson [exercise_json push_up, exercise_json squat]"
  by (simp add: batch_handler_def split_ids demo_dir_def)

lemma batch_handler_subset:
  assumes "q ''ids'' = Some s" "s \<noteq> []"
  shows "batch_handler dir q =
         BatchJson (map (\<lambda>i. the (json_files dir i))
                        (filter (\<lambda>i. json_files dir i \<noteq> None) (split_on CHR '','' s)))"
proof -
  have "concat (map (\<lambda>i. case m i of None \<Rightarrow> [] | Some e \<Rightarrow> [e]) xs) =
        map (\<lambda>i. the (m i)) (filter (\<lambda>i. m i \<noteq> None) xs)" for m :: "string \<rightharpoonup> json" and xs
    by (induction xs) (auto split: option.splits)
  with assms show ?thesis by (simp add: batch_handler_def)
qed

lemma search_without_criteria:
  "no_criteria q \<Longrightarrow> search_handler dir q = ErrorJson 400 ''At least one search parameter is required''"
  by (simp add: search_handler_def)

lemma batch_handler_without_ids:
  "\<not> truthy (q ''ids'') \<Longrightarrow> batch_handler dir q = ErrorJson 400 ''IDs parameter is required''"
  by (auto simp: batch_handler_def truthy_def split: option.splits)

subsection \<open>Claims about Batch and about requests without parameters\<close>

lemma route_search: "find_route routes (api_path [''search'']) = Some (SearchH, [])"
  by code_simp

text \<open>
  C1. The claim describes the batch handler (\<open>batch_handler_subset\<close>,
  \<open>batch_handler_found_in_order\<close>), but no request reaches that handler
  (\<open>batch_handler_unreachable\<close>): the route \<open>/exercises/:id\<close> is registered before
  \<open>/exercises/batch\<close> and takes the request with \<open>id = batch\<close>. Over a data directory
  holding push-up and squat, the Batch request of the claim is answered with 404
  \<open>Exercise not found\<close>.
\<close>

theorem batch_request_shadowed_by_id_route:
  "handle_request ''1.0.0'' demo_dir
     \<lparr>req_path = api_path [''exercises'', ''batch''],
      req_query = [''ids'' \<mapsto> ''push-up,nonexistent,squat'']\<rparr> =
   ErrorJson 404 ''Exercise not found''"
  by (simp add: handle_api route_batch get_by_id_handler_def demo_no_batch_file)

text \<open>
  C2. A Search request without any criterion is answered with 400 and an error message;
  a Batch request without ids is answered by the \<open>:id\<close> route with 404
  \<open>Exercise not found\<close>, not with the 400 of the batch handler
  (\<open>batch_handler_without_ids\<close>).
\<close>

theorem batch_without_ids_not_bad_request:
  "handle_request ''1.0.0'' demo_dir \<lparr>req_path = api_path [''search''], req_query = Map.empty\<rparr> =
     ErrorJson 400 ''At least one search parameter is required'' \<and>
   handle_request ''1.0.0'' demo_dir
     \<lparr>req_path = api_path [''exercises'', ''batch''], req_query = Map.empty\<rparr> =
     ErrorJson 404 ''Exercise not found''"
  by (simp add: handle_api route_batch route_search get_by_id_handler_def demo_no_batch_file
      search_handler_def no_criteria_def truthy_def)

subsection \<open>Filters and pagination\<close>

lemma filter_if_eq: "filter_if param pred xs = filter (\<lambda>ex. when_given param (\<lambda>v. pred v ex)) xs"
  by (cases param) (auto simp: filter_if_def when_given_def)

lemma filter_if_absent: "\<not> truthy param \<Longrightarrow> filter_if param pred xs = xs"
  by (cases param) (auto simp: filter_if_def truthy_def)

lemma search_filters_eq: "search_filters q data = filter (search_accepts q) data"
  by (auto simp: search_filters_def Let_def filter_if_eq search_accepts_def intro!: filter_cong)

lemma search_as_list:
  "\<not> truthy (q ''query'') \<Longrightarrow> \<not> truthy (q ''tags'') \<Longrightarrow> search_filters q data = list_filters q data"
  by (simp add: search_filters_def list_filters_def Let_def filter_if_absent)

lemma parseInt_undefined: "parseInt None = None"
  by code_simp

lemma parse_or_absent: "parse_or None d = d"
  by (simp add: parse_or_def parseInt_undefined)

lemma take_min_length: "take (min n (length ys)) ys = take n ys"
  by (simp add: min_def)

lemma js_slice_page:
  assumes "1 \<le> pg" "1 \<le> lmt"
  shows "js_slice xs ((pg - 1) * lmt) (pg * lmt) = page_of pg lmt xs"
proof -
  define s where "s = (pg - 1) * lmt"
  define n where "n = int (length xs)"
  have s0: "0 \<le> s" using assms by (simp add: s_def)
  have e: "pg * lmt = s + lmt" by (simp add: s_def algebra_simps)
  have sl: "js_slice xs s (s + lmt) =
            take (nat (min (s + lmt) n - min s n)) (drop (nat (min s n)) xs)"
    using s0 assms(2) by (simp add: js_slice_def Let_def n_def)
  have "take (nat (min (s + lmt) n - min s n)) (drop (nat (min s n)) xs) =
        take (nat lmt) (drop (nat s) xs)"
  proof (cases "s \<le> n")
    case True
    have "nat (min (s + lmt) n - s) = min (nat lmt) (length (drop (nat s) xs))"
      using True s0 assms(2) by (auto simp: min_def n_def)
    moreover have "take (min (nat lmt) (length (drop (nat s) xs))) (drop (nat s) xs) =
                   take (nat lmt) (drop (nat s) xs)"
      by (rule take_min_length)
    ultimately show ?thesis
      using True by (simp only: min_absorb1)
  next
    case False
    then have "length xs \<le> nat s" by (simp add: n_def)
    then show ?thesis
      using False by (simp add: min_absorb2 n_def)
  qed
  with sl show ?thesis by (simp add: page_of_def e s_def [symmetric])
qed

lemma ceil_div_ceiling: "ceil_div a b = \<lceil>real_of_int a / real_of_int b\<rceil>"
proof -
  have "\<lceil>real_of_int a / real_of_int b\<rceil> = - \<lfloor>real_of_int (- a) / real_of_int b\<rfloor>"
    by (simp add: ceiling_def)
  also have "\<dots> = - ((- a) div b)"
    by (simp only: floor_divide_of_int_eq)
  finally show ?thesis by (simp add: ceil_div_def)
qed

lemma page_beyond_range:
  assumes "1 \<le> lmt" "ceil_div (int (length xs)) lmt < pg"
  shows "page_of pg lmt xs = []"
proof -
  have "int (length xs) \<le> ceil_div (int (length xs)) lmt * lmt"
  proof -
    have "((- int (length xs)) div lmt) * lmt \<le> - int (length xs)"
    proof -
      have "0 \<le> (- int (length xs)) mod lmt" using assms(1) by simp
      moreover have "((- int (length xs)) div lmt) * lmt + (- int (length xs)) mod lmt =
                     - int (length xs)" by simp
      ultimately show ?thesis by linarith
    qed
    then show ?thesis by (simp add: ceil_div_def)
  qed
  also have "\<dots> \<le> (pg - 1) * lmt"
    using assms by (intro mult_right_mono) auto
  finally have "length xs \<le> nat ((pg - 1) * lmt)" by linarith
  then show ?thesis by (simp add: page_of_def)
qed

lemma page_of_length: "length (page_of pg lmt xs) \<le> nat lmt"
  by (simp add: page_of_def)

subsection \<open>Facets\<close>

lemma set_add_set: "set (set_add s x) = insert x (set s)"
  by (auto simp: set_add_def)

lemma set_add_distinct: "distinct s \<Longrightarrow> distinct (set_add s x)"
  by (simp add: set_add_def)

lemma foldl_set_add:
  "set (foldl set_add s xs) = set s \<union> set xs \<and> (distinct s \<longrightarrow> distinct (foldl set_add s xs))"
  by (induction xs arbitrary: s) (auto simp: set_add_set set_add_distinct)

lemma add_muscles_set:
  "set (add_muscles s ex) = set s \<union> muscles_of ex \<and>
   (distinct s \<longrightarrow> distinct (add_muscles s ex))"
  by (auto simp: add_muscles_def muscles_of_def foldl_set_add split: option.splits)

lemma foldl_add_muscles:
  "set (foldl add_muscles s data) = set s \<union> (\<Union>ex\<in>set data. muscles_of ex) \<and>
   (distinct s \<longrightarrow> distinct (foldl add_muscles s data))"
proof (induction data arbitrary: s)
  case Nil
  show ?case by simp
next
  case (Cons ex data)
  from Cons [of "add_muscles s ex"] add_muscles_set [of s ex] show ?case by auto
qed

lemma route_categories: "find_route routes (api_path [''categories'']) = Some (CategoriesH, [])"
  by code_simp
lemma route_muscles: "find_route routes (api_path [''muscles'']) = Some (MusclesH, [])"
  by code_simp
lemma route_equipment: "find_route routes (api_path [''equipment'']) = None"
  by code_simp
lemma route_list: "find_route routes (api_path [''exercises'']) = Some (ListH, [])"
  by code_simp

text \<open>
  C3 (as amended). The categories request is answered with the fixed lookup table of
  category ids and display names, the same table the conversion script uses, whatever
  the dataset holds; the muscles request is answered with the sorted list of the distinct
  muscle names, primary and secondary, found by scanning the dataset at request time.
  Neither response carries usage counts, and the server has no equipment route.
\<close>

theorem facets_without_counts:
  "handle_request v dir \<lparr>req_path = api_path [''categories''], req_query = q\<rparr> =
     CategoriesJson categories_table \<and>
   categories_table = categoryMap \<and>
   (\<forall>data. exercises_file dir = Some data \<longrightarrow>
      (\<exists>ms. handle_request v dir \<lparr>req_path = api_path [''muscles''], req_query = q\<rparr> =
              MusclesJson ms \<and>
            sorted ms \<and> distinct ms \<and> set ms = (\<Union>ex\<in>set data. muscles_of ex))) \<and>
   handle_request v dir \<lparr>req_path = api_path [''equipment''], req_query = q\<rparr> = NoRoute"
  using foldl_add_muscles [of "[]"]
  by (auto simp: handle_api route_categories route_muscles route_equipment categories_handler_def
      muscles_handler_def categories_table_def categoryMap_def)

lemma demo_muscles:
  "muscles_handler demo_dir =
     MusclesJson [''chest'', ''core'', ''glutes'', ''hamstrings'', ''quadriceps'', ''shoulders'', ''triceps'']"
  by (simp add: muscles_handler_def demo_dir_def add_muscles_def set_add_def push_up_def squat_def)

theorem facets_without_counts_witness:
  "exercises_file demo_dir = Some [push_up, squat] \<and>
   handle_request ''1.0.0'' demo_dir \<lparr>req_path = api_path [''categories''], req_query = Map.empty\<rparr> =
     CategoriesJson categories_table \<and>
   (\<exists>ms. handle_request ''1.0.0'' demo_dir \<lparr>req_path = api_path [''muscles''], req_query = Map.empty\<rparr> =
           MusclesJson ms \<and>
         sorted ms \<and> distinct ms \<and> set ms = (\<Union>ex\<in>set [push_up, squat]. muscles_of ex))"
proof -
  have d: "exercises_file demo_dir = Some [push_up, squat]"
    by (simp add: demo_dir_def)
  from facets_without_counts [of "''1.0.0''" demo_dir Map.empty] d
  show ?thesis by blast
qed

text \<open>
  C3 as stated fails: over an empty dataset the categories response still lists the five
  categories, as pairs of id and name; the muscles response is a list of names, the same
  for two datasets in which a muscle is used once and twice; an equipment request matches
  no route.
\<close>

theorem facets_counts_counterexample:
  "handle_request ''1.0.0'' empty_dir \<lparr>req_path = api_path [''categories''], req_query = Map.empty\<rparr> =
     CategoriesJson [(''upper-body'', ''Upper Body''), (''lower-body'', ''Lower Body''),
                     (''core'', ''Core''), (''cardio'', ''Cardio''), (''flexibility'', ''Flexibility'')] \<and>
   handle_request ''1.0.0'' (dir_of [push_up, squat])
       \<lparr>req_path = api_path [''muscles''], req_query = Map.empty\<rparr> =
     MusclesJson [''chest'', ''core'', ''glutes'', ''hamstrings'', ''quadriceps'', ''shoulders'', ''triceps''] \<and>
   handle_request ''1.0.0'' (dir_of [push_up, squat, squat])
       \<lparr>req_path = api_path [''muscles''], req_query = Map.empty\<rparr> =
     handle_request ''1.0.0'' (dir_of [push_up, squat])
       \<lparr>req_path = api_path [''muscles''], req_query = Map.empty\<rparr> \<and>
   length (filter (targets_muscle ''glutes'') [push_up, squat, squat]) \<noteq>
     length (filter (targets_muscle ''glutes'') [push_up, squat]) \<and>
   handle_request ''1.0.0'' (dir_of [push_up, squat])
       \<lparr>req_path = api_path [''equipment''], req_query = Map.empty\<rparr> = NoRoute"
  by (simp add: handle_api route_categories route_muscles route_equipment categories_handler_def
      categories_table_def muscles_handler_def dir_of_def empty_dir_def add_muscles_def set_add_def
      push_up_def squat_def targets_muscle_def includes_opt_def)

subsection \<open>Search\<close>

text \<open>
  C4 (as amended). A Search request with at least one criterion returns a page of exactly
  the records that pass the text match (the lower-cased query is a substring of the
  lower-cased name, of the lower-cased description, or of some lower-cased tag) and every
  supplied filter among category, difficulty, equipment and muscle; there is no tags
  filter. Without query text and without a tags parameter the filtered list is the one
  List computes.
\<close>

theorem search_results_characterised:
  assumes "exercises_file dir = Some data" and "\<not> no_criteria q"
  shows "\<exists>meta.
           search_handler dir q =
             ListJson meta
               (map exercise_json
                  (js_slice (filter (search_accepts q) data)
                     ((page meta - 1) * limit meta) (page meta * limit meta))) \<and>
           total meta = length (filter (search_accepts q) data) \<and>
           (\<forall>ex. ex \<in> set (filter (search_accepts q) data) \<longleftrightarrow>
                 ex \<in> set data \<and> search_accepts q ex) \<and>
           (\<not> truthy (q ''query'') \<and> \<not> truthy (q ''tags'') \<longrightarrow>
              filter (search_accepts q) data = list_filters q data)"
  using assms search_as_list [of q data]
  by (simp add: search_handler_def Let_def search_filters_eq)

lemma lower_UP: "toLowerCase ''UP'' = ''up''"
  by code_simp

lemma text_match_up: "text_match ''up'' push_up" "\<not> text_match ''up'' squat"
  unfolding text_match_def push_up_def squat_def by code_simp+

lemma accepts_up:
  "filter (search_accepts [''query'' \<mapsto> ''UP'']) [push_up, squat] = [push_up]"
  by (simp add: search_accepts_def when_given_def lower_UP text_match_up)

theorem search_results_characterised_witness:
  "exercises_file demo_dir = Some [push_up, squat] \<and> \<not> no_criteria [''query'' \<mapsto> ''UP''] \<and>
   (\<exists>meta. search_handler demo_dir [''query'' \<mapsto> ''UP''] =
             ListJson meta
               (map exercise_json
                  (js_slice [push_up] ((page meta - 1) * limit meta) (page meta * limit meta))) \<and>
           total meta = length [push_up])"
proof -
  have d: "exercises_file demo_dir = Some [push_up, squat]"
    by (simp add: demo_dir_def)
  have c: "\<not> no_criteria [''query'' \<mapsto> ''UP'']"
    by (simp add: no_criteria_def truthy_def)
  from search_results_characterised [OF d c] show ?thesis
    unfolding accepts_up using d c by blast
qed

lemma split_yoga: "split_on CHR '','' ''yoga'' = [''yoga'']"
  by code_simp

text \<open>
  C4 as stated fails: with \<open>category=upper-body\<close> and \<open>tags=yoga\<close> Search returns
  push-up, which has no such tag, where List returns nothing; and Search with a tags
  parameter alone is rejected.
\<close>

theorem search_ignores_tags_counterexample:
  "handle_request ''1.0.0'' demo_dir
     \<lparr>req_path = api_path [''search''],
      req_query = [''category'' \<mapsto> ''upper-body'', ''tags'' \<mapsto> ''yoga'']\<rparr> =
     ListJson \<lparr>total = 1, page = 1, limit = 20, pages = 1, meta_version = None\<rparr>
       [exercise_json push_up] \<and>
   handle_request ''1.0.0'' demo_dir
     \<lparr>req_path = api_path [''exercises''],
      req_query = [''category'' \<mapsto> ''upper-body'', ''tags'' \<mapsto> ''yoga'']\<rparr> =
     ListJson \<lparr>total = 0, page = 1, limit = 20, pages = 0, meta_version = Some ''1.0.0''\<rparr> [] \<and>
   handle_request ''1.0.0'' demo_dir
     \<lparr>req_path = api_path [''search''], req_query = [''tags'' \<mapsto> ''compound'']\<rparr> =
     ErrorJson 400 ''At least one search parameter is required''"
  by (simp add: handle_api route_search route_list search_handler_def list_handler_def
      no_criteria_def truthy_def demo_dir_def search_filters_def list_filters_def filter_if_def
      Let_def parse_or_absent js_slice_def ceil_div_def push_up_def squat_def has_some_tag_def
      split_yoga)

subsection \<open>Pagination\<close>

text \<open>
  C5 (as amended). For a List or Search request whose page and limit, after the defaults
  1 and 20, are at least 1: the returned page is the slice of the filtered list at offset
  \<open>(page - 1) * limit\<close> with at most \<open>limit\<close> elements, \<open>metadata.pages\<close> is the
  ceiling of the filtered count over the limit, \<open>metadata.total\<close> is the filtered count,
  and a page beyond the last one is empty.
\<close>

theorem pagination_law:
  assumes "exercises_file dir = Some data"
    and "1 \<le> parse_or (q ''page'') 1" and "1 \<le> parse_or (q ''limit'') 20"
  shows "let pg = parse_or (q ''page'') 1; lmt = parse_or (q ''limit'') 20 in
           (q ''page'' = None \<longrightarrow> pg = 1) \<and> (q ''limit'' = None \<longrightarrow> lmt = 20) \<and>
           (\<exists>meta xs. list_handler v dir q = ListJson meta xs \<and>
              xs = map (shown (q ''fields'')) (page_of pg lmt (list_filters q data)) \<and>
              length xs \<le> nat lmt \<and>
              total meta = length (list_filters q data) \<and> page meta = pg \<and> limit meta = lmt \<and>
              pages meta = \<lceil>real (length (list_filters q data)) / real_of_int lmt\<rceil> \<and>
              (pages meta < pg \<longrightarrow> xs = [])) \<and>
           (\<not> no_criteria q \<longrightarrow>
              (\<exists>meta xs. search_handler dir q = ListJson meta xs \<and>
                 xs = map exercise_json (page_of pg lmt (search_filters q data)) \<and>
                 length xs \<le> nat lmt \<and>
                 total meta = length (search_filters q data) \<and> page meta = pg \<and>
                 limit meta = lmt \<and>
                 pages meta = \<lceil>real (length (search_filters q data)) / real_of_int lmt\<rceil> \<and>
                 (pages meta < pg \<longrightarrow> xs = [])))"
proof -
  define pg where "pg = parse_or (q ''page'') 1"
  define lmt where "lmt = parse_or (q ''limit'') 20"
  have p1: "1 \<le> pg" and l1: "1 \<le> lmt" using assms by (simp_all add: pg_def lmt_def)
  have dflt: "(q ''page'' = None \<longrightarrow> pg = 1) \<and> (q ''limit'' = None \<longrightarrow> lmt = 20)"
    by (auto simp: pg_def lmt_def parse_or_absent)
  have law: "js_slice ys ((pg - 1) * lmt) (pg * lmt) = page_of pg lmt ys \<and>
             length (page_of pg lmt ys) \<le> nat lmt \<and>
             ceil_div (int (length ys)) lmt = \<lceil>real (length ys) / real_of_int lmt\<rceil> \<and>
             (ceil_div (int (length ys)) lmt < pg \<longrightarrow> page_of pg lmt ys = [])"
    for ys :: "exercise list"
  proof (intro conjI impI)
    show "js_slice ys ((pg - 1) * lmt) (pg * lmt) = page_of pg lmt ys"
      by (rule js_slice_page [OF p1 l1])
    show "length (page_of pg lmt ys) \<le> nat lmt"
      by (rule page_of_length)
    show "ceil_div (int (length ys)) lmt = \<lceil>real (length ys) / real_of_int lmt\<rceil>"
      using ceil_div_ceiling [of "int (length ys)" lmt] by simp
    show "page_of pg lmt ys = []" if "ceil_div (int (length ys)) lmt < pg"
      using page_beyond_range [OF l1 that] .
  qed
  have list: "\<exists>meta xs. list_handler v dir q = ListJson meta xs \<and>
              xs = map (shown (q ''fields'')) (page_of pg lmt (list_filters q data)) \<and>
              length xs \<le> nat lmt \<and>
              total meta = length (list_filters q data) \<and> page meta = pg \<and> limit meta = lmt \<and>
              pages meta = \<lceil>real (length (list_filters q data)) / real_of_int lmt\<rceil> \<and>
              (pages meta < pg \<longrightarrow> xs = [])"
    using law [of "list_filters q data"] assms(1)
    by (simp add: list_handler_def Let_def pg_def [symmetric] lmt_def [symmetric])
  have search: "\<exists>meta xs. search_handler dir q = ListJson meta xs \<and>
                 xs = map exercise_json (page_of pg lmt (search_filters q data)) \<and>
                 length xs \<le> nat lmt \<and>
                 total meta = length (search_filters q data) \<and> page meta = pg \<and>
                 limit meta = lmt \<and>
                 pages meta = \<lceil>real (length (search_filters q data)) / real_of_int lmt\<rceil> \<and>
                 (pages meta < pg \<longrightarrow> xs = [])"
    if "\<not> no_criteria q"
    using law [of "search_filters q data"] assms(1) that
    by (simp add: search_handler_def Let_def pg_def [symmetric] lmt_def [symmetric])
  from dflt list search show ?thesis
    unfolding Let_def pg_def [symmetric] lmt_def [symmetric] by blast
qed

lemma parse_params: "parse_or (Some ''2'') 1 = 2" "parse_or (Some ''1'') 20 = 1"
  "parse_or (Some ''-1'') 20 = - 1" "parse_or (Some ''3'') 1 = 3"
  by code_simp+

theorem pagination_law_witness:
  "exercises_file demo_dir = Some [push_up, squat] \<and>
   (1::int) \<le> parse_or ([''page'' \<mapsto> ''3'', ''limit'' \<mapsto> ''1''] ''page'') 1 \<and>
   (\<exists>meta xs. list_handler ''1.0.0'' demo_dir [''page'' \<mapsto> ''3'', ''limit'' \<mapsto> ''1''] =
        ListJson meta xs \<and> total meta = 2 \<and> page meta = 3 \<and> limit meta = 1 \<and>
        pages meta = \<lceil>real 2 / real_of_int 1\<rceil> \<and> (pages meta < 3 \<longrightarrow> xs = []))"
proof -
  let ?q = "[''page'' \<mapsto> ''3'', ''limit'' \<mapsto> ''1'']"
  have d: "exercises_file demo_dir = Some [push_up, squat]"
    by (simp add: demo_dir_def)
  have p: "1 \<le> parse_or (?q ''page'') 1" and l: "1 \<le> parse_or (?q ''limit'') 20"
    by (simp_all add: parse_params)
  have f: "list_filters ?q [push_up, squat] = [push_up, squat]"
    by (simp add: list_filters_def filter_if_def Let_def)
  from pagination_law [OF d p l, of "''1.0.0''"] show ?thesis
    using d p unfolding Let_def f by (auto simp: parse_params)
qed

text \<open>
  C5 as stated fails for a negative limit: with \<open>limit=-1\<close> the slice is
  \<open>slice(0, -1)\<close>, all records but the last, which is longer than the limit.
\<close>

theorem negative_limit_counterexample:
  "handle_request ''1.0.0'' demo_dir
     \<lparr>req_path = api_path [''exercises''], req_query = [''limit'' \<mapsto> ''-1'']\<rparr> =
     ListJson \<lparr>total = 2, page = 1, limit = - 1, pages = - 2, meta_version = Some ''1.0.0''\<rparr>
       [exercise_json push_up] \<and>
   \<not> int (length [exercise_json push_up]) \<le> - 1"
  by (simp add: handle_api route_list list_handler_def demo_dir_def list_filters_def filter_if_def
      Let_def parse_or_absent parse_params js_slice_def ceil_div_def shown_def)

end
